theory Spec2Isabelle
  imports Main
begin

section \<open>The host: processes, file system, environment\<close>

text \<open>
  \<^verbatim>\<open>java.py\<close> reaches everything outside itself through four library calls:
  \<^verbatim>\<open>subprocess.check_output\<close>, \<^verbatim>\<open>os.walk\<close>,
  \<^verbatim>\<open>os.path.isdir(os.path.realpath(p))\<close> and \<^verbatim>\<open>os.putenv\<close>.
  The host is a parameter of the model: a record of three functions over a state
  \<open>'w\<close> of the machine that nothing here looks into. A child process is given the
  variables set by \<^verbatim>\<open>os.putenv\<close> and its argument vector; it either cannot be
  started (Python raises \<^verbatim>\<open>OSError\<close>) or exits with a status, having written
  chunks of text to its standard output and standard error, and it leaves the
  machine in a new state.

  The source does not say which Python runs it, so the interpreter belongs to the
  host: \<open>python3\<close>. What a child wrote is a list of bytes, a \<open>string\<close> here. Under
  Python 2 \<^verbatim>\<open>check_output\<close> hands it over as a \<^verbatim>\<open>str\<close>; under Python 3 it is a
  \<^verbatim>\<open>bytes\<close> object unless \<^verbatim>\<open>universal_newlines=True\<close> is passed (decoding is taken
  to succeed). The difference shows where the module adds \<^verbatim>\<open>e.output\<close> to a \<^verbatim>\<open>str\<close>
  (lines 78 and 88): under Python 3 that raises \<^verbatim>\<open>TypeError\<close>. At line 100
  \<^verbatim>\<open>e.output\<close> is stored as it is; the record then holds these bytes, as a
  \<^verbatim>\<open>bytes\<close> object under Python 3.

  The execution mode \<^verbatim>\<open>__opts__['test']\<close> is the boolean parameter \<open>test\<close>, and the
  caller's arguments are strings (\<^verbatim>\<open>java_home\<close> a string or \<^verbatim>\<open>None\<close>).
\<close>

datatype stream = Stdout | Stderr

datatype proc_outcome =
    Exited int "(stream \<times> string) list"
  | NotStarted

record 'w host =
  isdir_realpath :: "'w \<Rightarrow> string \<Rightarrow> bool"
  os_walk :: "'w \<Rightarrow> string \<Rightarrow> (string \<times> string list \<times> string list) list"
  spawn :: "'w \<Rightarrow> (string \<times> string) list \<Rightarrow> string list \<Rightarrow> proc_outcome \<times> 'w"
  python3 :: bool

text \<open>
  What the module did to the outside, in order: the trace is the instrumentation
  that lets a theorem say which probes ran.
\<close>

datatype event =
    Spawn "string list" bool
  | IsDir string
  | Walk string
  | PutEnv string string

record 'w pstate =
  world :: 'w
  penv :: "(string \<times> string) list"
  trace :: "event list"

datatype py_error = OSError | CalledProcessError int string | TypeError

section \<open>\<^verbatim>\<open>subprocess.check_output\<close>\<close>

text \<open>
  The pipe of \<^verbatim>\<open>check_output\<close> carries the child's standard output, and its
  standard error too when \<^verbatim>\<open>stderr=subprocess.STDOUT\<close> is passed.
\<close>

definition captured :: "bool \<Rightarrow> (stream \<times> string) list \<Rightarrow> string" where
  "captured stderr_to_stdout cs =
     concat (map snd (filter (\<lambda>c. stderr_to_stdout \<or> fst c = Stdout) cs))"

text \<open>\<^verbatim>\<open>universal_newlines=True\<close>: CR LF and a lone CR are read as LF.\<close>

fun translate_newlines :: "string \<Rightarrow> string" where
  "translate_newlines [] = []"
| "translate_newlines [c] = (if c = CHR 0x0D then [CHR 0x0A] else [c])"
| "translate_newlines (c # d # cs) =
     (if c = CHR 0x0D \<and> d = CHR 0x0A then CHR 0x0A # translate_newlines cs
      else if c = CHR 0x0D then CHR 0x0A # translate_newlines (d # cs)
      else c # translate_newlines (d # cs))"

definition check_output ::
  "'w host \<Rightarrow> string list \<Rightarrow> bool \<Rightarrow> bool \<Rightarrow> 'w pstate \<Rightarrow> (py_error + string) \<times> 'w pstate" where
  "check_output h argv stderr_to_stdout universal_newlines s =
     (case spawn h (world s) (penv s) argv of
        (r, w') \<Rightarrow>
          let s' = s\<lparr>world := w', trace := trace s @ [Spawn argv stderr_to_stdout]\<rparr> in
          (case r of
             NotStarted \<Rightarrow> (Inl OSError, s')
           | Exited rc cs \<Rightarrow>
               let out = (if universal_newlines
                          then translate_newlines (captured stderr_to_stdout cs)
                          else captured stderr_to_stdout cs) in
               if rc = 0 then (Inr out, s') else (Inl (CalledProcessError rc out), s')))"

definition os_putenv :: "string \<Rightarrow> string \<Rightarrow> 'w pstate \<Rightarrow> 'w pstate" where
  "os_putenv k v s = s\<lparr>penv := (k, v) # filter (\<lambda>kv. fst kv \<noteq> k) (penv s),
                       trace := trace s @ [PutEnv k v]\<rparr>"

section \<open>The three locators\<close>

definition bash_argv :: "string list" where
  "bash_argv = [''/bin/bash'', ''-c'', ''source /etc/profile && echo -n $JAVA_HOME'']"

text \<open>Lines 140 to 145 of \<^verbatim>\<open>_find_java_home\<close>: only \<^verbatim>\<open>CalledProcessError\<close> is caught.\<close>

definition shell_java_home :: "'w host \<Rightarrow> 'w pstate \<Rightarrow> (py_error + string option) \<times> 'w pstate" where
  "shell_java_home h s =
     (case check_output h bash_argv False True s of
        (Inr jh, s') \<Rightarrow> (Inr (Some jh), s')
      | (Inl (CalledProcessError rc out), s') \<Rightarrow> (Inr None, s')
      | (Inl OSError, s') \<Rightarrow> (Inl OSError, s')
      | (Inl TypeError, s') \<Rightarrow> (Inl TypeError, s'))"

definition find_java_home ::
  "'w host \<Rightarrow> string option \<Rightarrow> 'w pstate \<Rightarrow> (py_error + string option) \<times> 'w pstate" where
  "find_java_home h java_home s =
     (case java_home of
        None \<Rightarrow> shell_java_home h s
      | Some p \<Rightarrow>
          if p = [] then shell_java_home h s
          else
            let s1 = s\<lparr>trace := trace s @ [IsDir p]\<rparr> in
            if isdir_realpath h (world s) p then (Inr (Some p), s1)
            else shell_java_home h s1)"

text \<open>
  \<^verbatim>\<open>os.path.join\<close> of two components on POSIX, and \<^verbatim>\<open>fnmatch.filter\<close> with the
  pattern \<^verbatim>\<open>cacerts\<close>, which has no wildcard and so matches that name only.
\<close>

definition os_path_join :: "string \<Rightarrow> string \<Rightarrow> string" where
  "os_path_join a b =
     (if b \<noteq> [] \<and> hd b = CHR ''/'' then b
      else if a = [] \<or> last a = CHR ''/'' then a @ b
      else a @ ''/'' @ b)"

definition fnmatch_filter_cacerts :: "string list \<Rightarrow> string list" where
  "fnmatch_filter_cacerts filenames = filter (\<lambda>n. n = ''cacerts'') filenames"

definition find_trust_store :: "'w host \<Rightarrow> string \<Rightarrow> 'w pstate \<Rightarrow> string option \<times> 'w pstate" where
  "find_trust_store h java_home s =
     (let ret = concat (map (\<lambda>(root, dirnames, filenames).
                    map (os_path_join root) (fnmatch_filter_cacerts filenames))
                  (os_walk h (world s) java_home));
          s' = s\<lparr>trace := trace s @ [Walk java_home]\<rparr>
      in (case ret of [] \<Rightarrow> (None, s') | x # _ \<Rightarrow> (Some x, s')))"

fun find_keytool_loop ::
  "'w host \<Rightarrow> string list \<Rightarrow> 'w pstate \<Rightarrow> (py_error + string option) \<times> 'w pstate" where
  "find_keytool_loop h [] s = (Inr None, s)"
| "find_keytool_loop h (keytool # rest) s =
     (case check_output h [keytool, ''-help''] True False s of
        (Inr out, s') \<Rightarrow> (Inr (Some keytool), s')
      | (Inl (CalledProcessError rc out), s') \<Rightarrow> find_keytool_loop h rest s'
      | (Inl OSError, s') \<Rightarrow> (Inl OSError, s')
      | (Inl TypeError, s') \<Rightarrow> (Inl TypeError, s'))"

definition find_keytool ::
  "'w host \<Rightarrow> string \<Rightarrow> 'w pstate \<Rightarrow> (py_error + string option) \<times> 'w pstate" where
  "find_keytool h java_home s =
     find_keytool_loop h [''/usr/bin/keytool'', java_home @ ''/'' @ ''bin'' @ ''/'' @ ''keytool''] s"

section \<open>\<^verbatim>\<open>trust_cert\<close>\<close>

record outcome =
  name :: string
  changes :: "string \<rightharpoonup> string"
  result :: "bool option"
  comment :: string

text \<open>
  The dictionary \<^verbatim>\<open>result_code\<close>, read only at its three literal keys. A Python
  \<^verbatim>\<open>True\<close> or \<^verbatim>\<open>False\<close> is \<open>Some\<close> of it and \<^verbatim>\<open>None\<close> is \<open>None\<close>.
\<close>

datatype code_key = Knone | Kfailure | Ksuccess

fun result_code :: "bool \<Rightarrow> code_key \<Rightarrow> bool option" where
  "result_code test Knone = Some True"
| "result_code test Kfailure = (if test then None else Some False)"
| "result_code test Ksuccess = (if test then None else Some True)"

definition list_alias_argv :: "string \<Rightarrow> string \<Rightarrow> string \<Rightarrow> string \<Rightarrow> string list" where
  "list_alias_argv keytool trust_store alias storepass =
     [keytool, ''-keystore'', trust_store, ''-list'', ''-alias'', alias, ''-storepass'', storepass]"

definition list_argv :: "string \<Rightarrow> string \<Rightarrow> string \<Rightarrow> string list" where
  "list_argv keytool trust_store storepass =
     [keytool, ''-keystore'', trust_store, ''-list'', ''-storepass'', storepass]"

definition printcert_argv :: "string \<Rightarrow> string \<Rightarrow> string list" where
  "printcert_argv keytool cert_file = [keytool, ''-printcert'', ''-file'', cert_file]"

definition importcert_argv ::
  "string \<Rightarrow> string \<Rightarrow> string \<Rightarrow> string \<Rightarrow> string \<Rightarrow> string list" where
  "importcert_argv keytool cert_file trust_store alias storepass =
     [keytool, ''-importcert'', ''-trustcacerts'', ''-file'', cert_file, ''-keystore'', trust_store,
      ''-alias'', alias, ''-storepass'', storepass, ''-noprompt'']"

definition added_comment :: "string \<Rightarrow> string" where
  "added_comment alias = ''Certificate '' @ [CHR 0x22] @ alias @ [CHR 0x22] @ '' was added as a trusted root.''"

definition will_add_comment :: "string \<Rightarrow> string" where
  "will_add_comment alias = ''Certificate '' @ [CHR 0x22] @ alias @ [CHR 0x22] @ '' will be added as a trusted root.''"

definition trust_cert ::
  "'w host \<Rightarrow> bool \<Rightarrow> string \<Rightarrow> string \<Rightarrow> string \<Rightarrow> string \<Rightarrow> string option \<Rightarrow> 'w pstate
     \<Rightarrow> (py_error + outcome) \<times> 'w pstate" where
  "trust_cert h test nm cert_file alias storepass java_home s =
     (let ret = \<lparr>name = nm, changes = Map.empty, result = Some False, comment = []\<rparr> in
      case find_java_home h java_home s of
        (Inl e, s1) \<Rightarrow> (Inl e, s1)
      | (Inr jh, s1) \<Rightarrow>
      (if jh = None \<or> jh = Some [] then
        (Inr (ret\<lparr>result := result_code test Knone, comment := ''Java is not installed''\<rparr>), s1)
      else
      (let java_home = (case jh of Some p \<Rightarrow> p | None \<Rightarrow> []);
           s1 = os_putenv ''JAVA_HOME'' java_home s1 in
      (case find_trust_store h java_home s1 of
        (None, s2) \<Rightarrow>
          (Inr (ret\<lparr>result := result_code test Kfailure,
                    comment := ''Could not find Java trust store.''\<rparr>), s2)
      | (Some trust_store, s2) \<Rightarrow>
      (if trust_store = [] then
          (Inr (ret\<lparr>result := result_code test Kfailure,
                    comment := ''Could not find Java trust store.''\<rparr>), s2)
      else
      (case find_keytool h java_home s2 of
        (Inl e, s3) \<Rightarrow> (Inl e, s3)
      | (Inr None, s3) \<Rightarrow>
          (Inr (ret\<lparr>result := result_code test Kfailure,
                    comment := ''Could not find keytool binary.''\<rparr>), s3)
      | (Inr (Some keytool), s3) \<Rightarrow>
      (if keytool = [] then
          (Inr (ret\<lparr>result := result_code test Kfailure,
                    comment := ''Could not find keytool binary.''\<rparr>), s3)
      else
      (case check_output h (list_alias_argv keytool trust_store alias storepass) True False s3 of
        (Inl OSError, s4) \<Rightarrow> (Inl OSError, s4)
      | (Inl TypeError, s4) \<Rightarrow> (Inl TypeError, s4)
      | (Inr out, s4) \<Rightarrow>
          (Inr (ret\<lparr>result := result_code test Knone,
                    comment := ''CA alias exists in trust store.''\<rparr>), s4)
      | (Inl (CalledProcessError rc out), s4) \<Rightarrow>
      (case check_output h (list_argv keytool trust_store storepass) True False s4 of
        (Inl OSError, s5) \<Rightarrow> (Inl OSError, s5)
      | (Inl TypeError, s5) \<Rightarrow> (Inl TypeError, s5)
      | (Inl (CalledProcessError rc e_output), s5) \<Rightarrow>
          (if python3 h then (Inl TypeError, s5)
           else (Inr (ret\<lparr>result := result_code test Kfailure,
                    comment := ''Keystore '' @ trust_store @ '' problem:'' @ [CHR 0x0A] @ e_output\<rparr>), s5))
      | (Inr out, s5) \<Rightarrow>
      (case check_output h (printcert_argv keytool cert_file) False False s5 of
        (Inl OSError, s6) \<Rightarrow> (Inl OSError, s6)
      | (Inl TypeError, s6) \<Rightarrow> (Inl TypeError, s6)
      | (Inl (CalledProcessError rc e_output), s6) \<Rightarrow>
          (if python3 h then (Inl TypeError, s6)
           else (Inr (ret\<lparr>result := result_code test Kfailure,
                    comment := ''File '' @ cert_file @ '' is not a valid certificate:''
                               @ [CHR 0x0A] @ e_output\<rparr>), s6))
      | (Inr out, s6) \<Rightarrow>
      (if \<not> test then
        (case check_output h (importcert_argv keytool cert_file trust_store alias storepass)
                True False s6 of
           (Inl OSError, s7) \<Rightarrow> (Inl OSError, s7)
         | (Inl TypeError, s7) \<Rightarrow> (Inl TypeError, s7)
         | (Inl (CalledProcessError rc e_output), s7) \<Rightarrow>
             (Inr (ret\<lparr>result := result_code test Kfailure, comment := e_output\<rparr>), s7)
         | (Inr out, s7) \<Rightarrow>
             (Inr (ret\<lparr>result := result_code test Ksuccess,
                       comment := added_comment alias,
                       changes := [''old'' \<mapsto> [], ''new'' \<mapsto> alias]\<rparr>), s7))
      else
        (Inr (ret\<lparr>result := result_code test Ksuccess,
                  comment := will_add_comment alias,
                  changes := [''old'' \<mapsto> [], ''new'' \<mapsto> alias]\<rparr>), s6))))))))))))"

section \<open>What a run did: kinds of events\<close>

text \<open>
  The six argument vectors the module builds have six different lengths, so the
  shape of a vector tells which invocation it is, whatever the alias, the paths
  and the password are.
\<close>

datatype kind = Discovery | AliasProbe | StoreProbe | CertProbe | Import | Other

definition argv_kind :: "string list \<Rightarrow> kind" where
  "argv_kind argv =
     (if argv = bash_argv then Discovery
      else if length argv = 2 \<and> argv ! 1 = ''-help'' then Discovery
      else if length argv = 8 \<and> argv ! 3 = ''-list'' \<and> argv ! 4 = ''-alias'' then AliasProbe
      else if length argv = 6 \<and> argv ! 3 = ''-list'' then StoreProbe
      else if length argv = 4 \<and> argv ! 1 = ''-printcert'' then CertProbe
      else if length argv = 12 \<and> argv ! 1 = ''-importcert'' then Import
      else Other)"





section \<open>The discovery phase and the contract of the tool\<close>

text \<open>
  Lines 33 to 54 of \<^verbatim>\<open>trust_cert\<close> taken alone: the three locators in the order
  the function calls them, with the \<^verbatim>\<open>os.putenv\<close> between the first and the
  second. The theorems below use it to say "discovery succeeds".
\<close>

datatype discovered =
    Raised py_error
  | NoJava
  | NoStore
  | NoTool
  | Found string string string

definition discover :: "'w host \<Rightarrow> string option \<Rightarrow> 'w pstate \<Rightarrow> discovered \<times> 'w pstate" where
  "discover h java_home s =
     (case find_java_home h java_home s of
        (Inl e, s1) \<Rightarrow> (Raised e, s1)
      | (Inr jh, s1) \<Rightarrow>
      (if jh = None \<or> jh = Some [] then (NoJava, s1)
      else
      (let java_home = (case jh of Some p \<Rightarrow> p | None \<Rightarrow> []);
           s1 = os_putenv ''JAVA_HOME'' java_home s1 in
      (case find_trust_store h java_home s1 of
        (None, s2) \<Rightarrow> (NoStore, s2)
      | (Some trust_store, s2) \<Rightarrow>
      (if trust_store = [] then (NoStore, s2)
      else
      (case find_keytool h java_home s2 of
        (Inl e, s3) \<Rightarrow> (Raised e, s3)
      | (Inr None, s3) \<Rightarrow> (NoTool, s3)
      | (Inr (Some keytool), s3) \<Rightarrow>
      (if keytool = [] then (NoTool, s3)
       else (Found java_home trust_store keytool, s3))))))))"



section \<open>A small host to run the module on\<close>

text \<open>
  A machine with a JDK unpacked under \<^verbatim>\<open>/opt/jdk\<close>. Its state is the list of
  aliases in the trust store; the record says which Python runs the module, whether
  \<^verbatim>\<open>/bin/bash\<close> exists, what \<^verbatim>\<open>/etc/profile\<close> does and whether
  \<^verbatim>\<open>/usr/bin/keytool\<close> exists. The tool writes its diagnostics the way
  a command-line tool may: some to standard output, some to standard error.
\<close>

record site =
  runs_python3 :: bool
  bin_bash :: bool
  profile_ok :: bool
  profile_java_home :: string
  usr_bin_keytool :: bool

definition demo_keytool :: "string list \<Rightarrow> string list \<Rightarrow> proc_outcome \<times> string list" where
  "demo_keytool w args =
     (if args = [''-help''] then (Exited 0 [(Stderr, ''Key and Certificate Management Tool'')], w)
      else if length args = 7 \<and> args ! 2 = ''-list'' \<and> args ! 3 = ''-alias'' then
        (if args ! 1 = ''/opt/jdk/lib/security/cacerts'' \<and> args ! 6 = ''changeit''
            \<and> args ! 4 \<in> set w
         then (Exited 0 [(Stdout, ''trustedCertEntry'')], w)
         else (Exited 1 [(Stdout, ''keytool error: no such alias'')], w))
      else if length args = 5 \<and> args ! 2 = ''-list'' then
        (if args ! 1 = ''/opt/jdk/lib/security/cacerts'' \<and> args ! 4 = ''changeit''
         then (Exited 0 [(Stdout, ''Keystore type: jks'')], w)
         else (Exited 1 [(Stdout, ''keytool error: ''), (Stderr, ''password was incorrect'')], w))
      else if length args = 3 \<and> args ! 0 = ''-printcert'' then
        (if args ! 2 = ''/etc/ssl/myca.pem''
         then (Exited 0 [(Stdout, ''Owner: CN=myca'')], w)
         else (Exited 1 [(Stderr, ''keytool error: empty input'')], w))
      else if length args = 11 \<and> args ! 0 = ''-importcert'' then
        (if args ! 3 = ''/etc/ssl/myca.pem'' \<and> args ! 5 = ''/opt/jdk/lib/security/cacerts''
            \<and> args ! 9 = ''changeit''
         then (Exited 0 [(Stderr, ''Certificate was added to keystore'')], w @ [args ! 7])
         else (Exited 1 [(Stdout, ''keytool error: import failed'')], w))
      else (Exited 2 [(Stderr, ''Illegal option'')], w))"

definition demo_spawn ::
  "site \<Rightarrow> string list \<Rightarrow> (string \<times> string) list \<Rightarrow> string list \<Rightarrow> proc_outcome \<times> string list" where
  "demo_spawn c w e argv =
     (if argv = bash_argv then
        (if \<not> bin_bash c then (NotStarted, w)
         else if profile_ok c then (Exited 0 [(Stdout, profile_java_home c)], w)
         else (Exited 1 [(Stderr, ''/etc/profile: No such file or directory'')], w))
      else (case argv of
              [] \<Rightarrow> (NotStarted, w)
            | prog # args \<Rightarrow>
                if prog = ''/opt/jdk/bin/keytool'' \<or> (prog = ''/usr/bin/keytool'' \<and> usr_bin_keytool c)
                then demo_keytool w args else (NotStarted, w)))"

definition demo_host :: "site \<Rightarrow> string list host" where
  "demo_host c =
     \<lparr>isdir_realpath = (\<lambda>w p. p = ''/opt/jdk''),
      os_walk = (\<lambda>w p. if p = ''/opt/jdk''
                 then [(''/opt/jdk'', [''bin'', ''lib''], [''release'']),
                       (''/opt/jdk/bin'', [], [''java'', ''keytool'']),
                       (''/opt/jdk/lib'', [''security''], []),
                       (''/opt/jdk/lib/security'', [], [''cacerts'', ''java.security''])]
                 else []),
      spawn = demo_spawn c,
      python3 = runs_python3 c\<rparr>"

definition packaged :: site where
  "packaged = \<lparr>runs_python3 = False, bin_bash = True, profile_ok = True, profile_java_home = ''/opt/jdk'', usr_bin_keytool = True\<rparr>"

definition start :: "'w \<Rightarrow> 'w pstate" where
  "start w = \<lparr>world = w, penv = [], trace = []\<rparr>"

text \<open>The state in which discovery leaves the packaged machine, started with the aliases \<open>w\<close>.\<close>

definition found :: "string list \<Rightarrow> string list pstate" where
  "found w = \<lparr>world = w, penv = [(''JAVA_HOME'', ''/opt/jdk'')],
      trace = [Spawn bash_argv False, PutEnv ''JAVA_HOME'' ''/opt/jdk'', Walk ''/opt/jdk'',
               Spawn [''/usr/bin/keytool'', ''-help''] True]\<rparr>"

lemmas model_defs =
  trust_cert_def find_java_home_def shell_java_home_def check_output_def captured_def
  os_putenv_def find_trust_store_def fnmatch_filter_cacerts_def os_path_join_def
  find_keytool_def list_alias_argv_def list_argv_def printcert_argv_def importcert_argv_def
  bash_argv_def added_comment_def will_add_comment_def discover_def

lemmas demo_defs = demo_host_def demo_spawn_def demo_keytool_def packaged_def start_def

section \<open>How the state moves\<close>





lemma argv_kind_simps [simp]:
  "argv_kind bash_argv = Discovery"
  "argv_kind [k, ''-help''] = Discovery"
  "argv_kind (list_alias_argv k ts a p) = AliasProbe"
  "argv_kind (list_argv k ts p) = StoreProbe"
  "argv_kind (printcert_argv k c) = CertProbe"
  "argv_kind (importcert_argv k c ts a p) = Import"
  by (simp_all add: argv_kind_def bash_argv_def list_alias_argv_def list_argv_def
      printcert_argv_def importcert_argv_def)








lemma trust_cert_result_aux:
  "case fst (trust_cert h test nm cert alias pass jh s) of
     Inl e \<Rightarrow> True
   | Inr ret \<Rightarrow> result ret \<in> {result_code test Knone, result_code test Kfailure, result_code test Ksuccess}"
  by (simp add: trust_cert_def Let_def
      split: prod.split sum.split option.split py_error.split)


lemma translate_newlines_Nil [simp]: "translate_newlines xs = [] \<longleftrightarrow> xs = []"
  by (induction xs rule: translate_newlines.induct) auto

lemma shell_java_home_exit:
  assumes "spawn h (world s) (penv s) bash_argv = (Exited rc cs, w')"
  shows "shell_java_home h s =
    (Inr (if rc = 0 then Some (translate_newlines (captured False cs)) else None),
     s\<lparr>world := w', trace := trace s @ [Spawn bash_argv False]\<rparr>)"
  using assms by (simp add: shell_java_home_def check_output_def)

lemma check_output_exit:
  assumes "spawn h (world s) (penv s) argv = (Exited rc cs, w')"
  shows "check_output h argv a False s =
    ((if rc = 0 then Inr (captured a cs) else Inl (CalledProcessError rc (captured a cs))),
     s\<lparr>world := w', trace := trace s @ [Spawn argv a]\<rparr>)"
  using assms by (simp add: check_output_def)

lemma discover_Found:
  assumes "discover h jh s = (Found home ts kt, s3)"
  obtains s1 s2 where "find_java_home h jh s = (Inr (Some home), s1)" "home \<noteq> []"
    "find_trust_store h home (os_putenv ''JAVA_HOME'' home s1) = (Some ts, s2)" "ts \<noteq> []"
    "find_keytool h home s2 = (Inr (Some kt), s3)" "kt \<noteq> []"
  using assms
  by (auto simp: discover_def Let_def
      split: prod.splits sum.splits option.splits if_splits)

lemma trust_cert_Found:
  assumes "discover h jh s = (Found home ts kt, s3)"
  shows "trust_cert h test nm cert al pass jh s =
    (let ret = \<lparr>name = nm, changes = Map.empty, result = Some False, comment = []\<rparr> in
     (case check_output h (list_alias_argv kt ts al pass) True False s3 of
        (Inl OSError, s4) \<Rightarrow> (Inl OSError, s4)
      | (Inl TypeError, s4) \<Rightarrow> (Inl TypeError, s4)
      | (Inr out, s4) \<Rightarrow>
          (Inr (ret\<lparr>result := result_code test Knone,
                    comment := ''CA alias exists in trust store.''\<rparr>), s4)
      | (Inl (CalledProcessError rc out), s4) \<Rightarrow>
      (case check_output h (list_argv kt ts pass) True False s4 of
        (Inl OSError, s5) \<Rightarrow> (Inl OSError, s5)
      | (Inl TypeError, s5) \<Rightarrow> (Inl TypeError, s5)
      | (Inl (CalledProcessError rc e_output), s5) \<Rightarrow>
          (if python3 h then (Inl TypeError, s5)
           else (Inr (ret\<lparr>result := result_code test Kfailure,
                    comment := ''Keystore '' @ ts @ '' problem:'' @ [CHR 0x0A] @ e_output\<rparr>), s5))
      | (Inr out, s5) \<Rightarrow>
      (case check_output h (printcert_argv kt cert) False False s5 of
        (Inl OSError, s6) \<Rightarrow> (Inl OSError, s6)
      | (Inl TypeError, s6) \<Rightarrow> (Inl TypeError, s6)
      | (Inl (CalledProcessError rc e_output), s6) \<Rightarrow>
          (if python3 h then (Inl TypeError, s6)
           else (Inr (ret\<lparr>result := result_code test Kfailure,
                    comment := ''File '' @ cert @ '' is not a valid certificate:''
                               @ [CHR 0x0A] @ e_output\<rparr>), s6))
      | (Inr out, s6) \<Rightarrow>
      (if \<not> test then
        (case check_output h (importcert_argv kt cert ts al pass)
                True False s6 of
           (Inl OSError, s7) \<Rightarrow> (Inl OSError, s7)
         | (Inl TypeError, s7) \<Rightarrow> (Inl TypeError, s7)
         | (Inl (CalledProcessError rc e_output), s7) \<Rightarrow>
             (Inr (ret\<lparr>result := result_code test Kfailure, comment := e_output\<rparr>), s7)
         | (Inr out, s7) \<Rightarrow>
             (Inr (ret\<lparr>result := result_code test Ksuccess,
                       comment := added_comment al,
                       changes := [''old'' \<mapsto> [], ''new'' \<mapsto> al]\<rparr>), s7))
      else
        (Inr (ret\<lparr>result := result_code test Ksuccess,
                  comment := will_add_comment al,
                  changes := [''old'' \<mapsto> [], ''new'' \<mapsto> al]\<rparr>), s6))))))"
proof -
  from assms obtain s1 s2 where
    "find_java_home h jh s = (Inr (Some home), s1)" "home \<noteq> []"
    "find_trust_store h home (os_putenv ''JAVA_HOME'' home s1) = (Some ts, s2)" "ts \<noteq> []"
    "find_keytool h home s2 = (Inr (Some kt), s3)" "kt \<noteq> []"
    by (rule discover_Found)
  then show ?thesis
    by (simp add: trust_cert_def)
qed

lemma demo_discover':
  "discover (demo_host packaged) None (start w) =
    (Found ''/opt/jdk'' ''/opt/jdk/lib/security/cacerts'' ''/usr/bin/keytool'', found w)"
  by (simp add: model_defs demo_defs Let_def found_def)




section \<open>Discovery on a fixed installation\<close>


















section \<open>The claims\<close>

subsection \<open>C1: an outcome record is always returned\<close>

text \<open>
  C1 says that every invocation returns an outcome record and that a missing shell
  or a missing \<^verbatim>\<open>keytool\<close> binary never escapes as an exception. The code catches
  \<^verbatim>\<open>CalledProcessError\<close> only, which \<^verbatim>\<open>check_output\<close> raises for a process that
  ran and exited with a non-zero status; a program that cannot be started raises
  \<^verbatim>\<open>OSError\<close>. On a machine without \<^verbatim>\<open>/usr/bin/keytool\<close>, although the JDK has
  its own \<^verbatim>\<open>bin/keytool\<close>, and on a machine without \<^verbatim>\<open>/bin/bash\<close>, the call
  ends in \<^verbatim>\<open>OSError\<close> and no record is returned.
\<close>

theorem missing_binary_escapes:
  "fst (trust_cert (demo_host (packaged\<lparr>usr_bin_keytool := False\<rparr>)) False
          ''ca'' ''/etc/ssl/myca.pem'' ''myca'' ''changeit'' None (start [])) = Inl OSError
   \<and> fst (trust_cert (demo_host (packaged\<lparr>bin_bash := False\<rparr>)) False
          ''ca'' ''/etc/ssl/myca.pem'' ''myca'' ''changeit'' None (start [])) = Inl OSError"
  by (simp add: model_defs demo_defs Let_def)

subsection \<open>C4: the status values\<close>

text \<open>
  C4: the status of a returned record is one of the three entries of
  \<^verbatim>\<open>result_code\<close>; live, these are \<^verbatim>\<open>True\<close> (neutral), \<^verbatim>\<open>False\<close> (failure) and
  \<^verbatim>\<open>True\<close> (success); in a dry run failure and success are both \<^verbatim>\<open>None\<close> and
  neutral stays \<^verbatim>\<open>True\<close>.
\<close>

theorem result_is_a_result_code:
  assumes "trust_cert h test nm cert_file alias storepass java_home s = (Inr ret, s')"
  shows "result ret \<in> {result_code test Knone, result_code test Kfailure, result_code test Ksuccess}
    \<and> result_code False Knone = Some True \<and> result_code False Kfailure = Some False
    \<and> result_code False Ksuccess = Some True
    \<and> result_code True Knone = Some True \<and> result_code True Kfailure = None
    \<and> result_code True Ksuccess = None"
proof -
  have "case fst (trust_cert h test nm cert_file alias storepass java_home s) of
     Inl e \<Rightarrow> True
   | Inr ret \<Rightarrow> result ret \<in> {result_code test Knone, result_code test Kfailure, result_code test Ksuccess}"
    by (rule trust_cert_result_aux)
  with assms show ?thesis by simp
qed

theorem result_is_a_result_code_witness:
  "fst (trust_cert (demo_host packaged) True ''ca'' ''/etc/ssl/bad.pem'' ''myca'' ''changeit'' None (start []))
     = Inr \<lparr>name = ''ca'', changes = Map.empty, result = None,
             comment = ''File /etc/ssl/bad.pem is not a valid certificate:'' @ [CHR 0x0A]\<rparr>
   \<and> result \<lparr>name = ''ca'', changes = Map.empty, result = None,
             comment = ''File /etc/ssl/bad.pem is not a valid certificate:'' @ [CHR 0x0A]\<rparr>
      \<in> {result_code True Knone, result_code True Kfailure, result_code True Ksuccess}"
proof -
  let ?run = "trust_cert (demo_host packaged) True ''ca'' ''/etc/ssl/bad.pem'' ''myca'' ''changeit'' None (start [])"
  have f: "fst ?run = Inr \<lparr>name = ''ca'', changes = Map.empty, result = None,
             comment = ''File /etc/ssl/bad.pem is not a valid certificate:'' @ [CHR 0x0A]\<rparr>"
    by (simp add: model_defs demo_defs Let_def)
  then have run: "?run = (Inr \<lparr>name = ''ca'', changes = Map.empty, result = None,
             comment = ''File /etc/ssl/bad.pem is not a valid certificate:'' @ [CHR 0x0A]\<rparr>, snd ?run)"
    by (simp add: prod_eq_iff)
  have "result \<lparr>name = ''ca'', changes = Map.empty, result = None,
             comment = ''File /etc/ssl/bad.pem is not a valid certificate:'' @ [CHR 0x0A]\<rparr>
      \<in> {result_code True Knone, result_code True Kfailure, result_code True Ksuccess}"
    using result_is_a_result_code [OF run] by blast
  with f show ?thesis by blast
qed

subsection \<open>C9: no Java installation\<close>

text \<open>
  C9 says that with no override of the installation root, when the shell query fails
  or produces no value, \<^verbatim>\<open>trust_cert\<close> returns the neutral status with the message
  \<^verbatim>\<open>Java is not installed\<close>. A shell query fails in two ways. A shell that ran and
  exited with a non-zero status raises \<^verbatim>\<open>CalledProcessError\<close>, which line 143
  catches. A shell that cannot be started raises \<^verbatim>\<open>OSError\<close>, which line 143 does
  not catch: on a machine without \<^verbatim>\<open>/bin/bash\<close> the call, with no override or with
  the empty one, in dry-run or in live mode, ends in \<^verbatim>\<open>OSError\<close> and returns no
  record. It is the defect of C1, in \<^verbatim>\<open>_find_java_home\<close>.
\<close>

theorem unstartable_shell_escapes:
  "fst (spawn (demo_host (packaged\<lparr>bin_bash := False\<rparr>)) [] [] bash_argv) = NotStarted
   \<and> fst (trust_cert (demo_host (packaged\<lparr>bin_bash := False\<rparr>)) True
          ''ca'' ''/etc/ssl/myca.pem'' ''myca'' ''changeit'' None (start [])) = Inl OSError
   \<and> fst (trust_cert (demo_host (packaged\<lparr>bin_bash := False\<rparr>)) False
          ''ca'' ''/etc/ssl/myca.pem'' ''myca'' ''changeit'' (Some []) (start [])) = Inl OSError"
  by (simp add: model_defs demo_defs Let_def)

text \<open>
  It is so on every host: with no override, a shell that cannot be started ends the
  call in \<^verbatim>\<open>OSError\<close>.
\<close>

lemma no_shell_raises:
  assumes "java_home = None \<or> java_home = Some []"
    and "fst (spawn h (world s) (penv s) bash_argv) = NotStarted"
  shows "fst (trust_cert h test nm cert_file alias storepass java_home s) = Inl OSError"
proof -
  obtain w' where "spawn h (world s) (penv s) bash_argv = (NotStarted, w')"
    using assms(2) by (cases "spawn h (world s) (penv s) bash_argv") auto
  then have "shell_java_home h s =
      (Inl OSError, s\<lparr>world := w', trace := trace s @ [Spawn bash_argv False]\<rparr>)"
    by (simp add: shell_java_home_def check_output_def)
  moreover have "find_java_home h java_home s = shell_java_home h s"
    using assms(1) by (auto simp: find_java_home_def)
  ultimately show ?thesis
    by (simp add: trust_cert_def)
qed

text \<open>
  The rest of C9 holds: when the shell query runs and exits with a non-zero status,
  or exits with status 0 having printed nothing on its standard output, the record
  is the neutral one, in live and in dry-run mode, and the final state shows the
  shell query as the only thing done: no other probe, no \<^verbatim>\<open>os.putenv\<close>, no import.
\<close>

lemma no_java_when_shell_ran:
  assumes "java_home = None \<or> java_home = Some []"
    and "spawn h (world s) (penv s) bash_argv = (Exited rc cs, w')"
    and "rc \<noteq> 0 \<or> captured False cs = []"
  shows "trust_cert h test nm cert_file alias storepass java_home s =
    (Inr \<lparr>name = nm, changes = Map.empty, result = Some True, comment = ''Java is not installed''\<rparr>,
     s\<lparr>world := w', trace := trace s @ [Spawn bash_argv False]\<rparr>)"
proof -
  have "find_java_home h java_home s = shell_java_home h s"
    using assms(1) by (auto simp: find_java_home_def)
  then show ?thesis
    using shell_java_home_exit [OF assms(2)] assms(3)
    by (auto simp: trust_cert_def)
qed

subsection \<open>C10: what the resolver checks\<close>

text \<open>
  C10: \<^verbatim>\<open>_find_java_home\<close> tests the override only. An override that is a directory
  (after \<^verbatim>\<open>realpath\<close>) is returned, and nothing is spawned. An override that is not
  a directory gives the same result as no override at all: the shell is asked, and
  nothing is raised on account of the override. What the shell printed is returned
  as it is: the trace holds no directory test but the one of the override.
\<close>

theorem only_the_override_is_checked:
  "(p \<noteq> [] \<and> isdir_realpath h (world s) p \<longrightarrow>
      find_java_home h (Some p) s = (Inr (Some p), s\<lparr>trace := trace s @ [IsDir p]\<rparr>))
   \<and> (p \<noteq> [] \<and> \<not> isdir_realpath h (world s) p \<longrightarrow>
      fst (find_java_home h (Some p) s) = fst (find_java_home h None s))
   \<and> (p \<noteq> [] \<and> \<not> isdir_realpath h (world s) p
        \<and> spawn h (world s) (penv s) bash_argv = (Exited 0 cs, w') \<longrightarrow>
      find_java_home h (Some p) s =
        (Inr (Some (translate_newlines (captured False cs))),
         s\<lparr>world := w', trace := trace s @ [IsDir p, Spawn bash_argv False]\<rparr>))
   \<and> (spawn h (world s) (penv s) bash_argv = (Exited 0 cs, w') \<longrightarrow>
      find_java_home h None s =
        (Inr (Some (translate_newlines (captured False cs))),
         s\<lparr>world := w', trace := trace s @ [Spawn bash_argv False]\<rparr>))"
  by (auto simp: find_java_home_def shell_java_home_def check_output_def Let_def
      split: prod.splits proc_outcome.splits)

theorem only_the_override_is_checked_witness:
  "find_java_home (demo_host (packaged\<lparr>profile_java_home := ''/nowhere''\<rparr>)) (Some ''/opt/jdk'') (start [])
     = (Inr (Some ''/opt/jdk''), \<lparr>world = [], penv = [], trace = [IsDir ''/opt/jdk'']\<rparr>)
   \<and> find_java_home (demo_host (packaged\<lparr>profile_java_home := ''/nowhere''\<rparr>)) (Some ''/srv/java'') (start [])
     = (Inr (Some ''/nowhere''),
        \<lparr>world = [], penv = [], trace = [IsDir ''/srv/java'', Spawn bash_argv False]\<rparr>)
   \<and> \<not> isdir_realpath (demo_host (packaged\<lparr>profile_java_home := ''/nowhere''\<rparr>)) [] ''/nowhere''
   \<and> find_java_home (demo_host (packaged\<lparr>profile_java_home := ''/nowhere''\<rparr>)) None (start [])
     = (Inr (Some ''/nowhere''), \<lparr>world = [], penv = [], trace = [Spawn bash_argv False]\<rparr>)"
proof -
  let ?h = "demo_host (packaged\<lparr>profile_java_home := ''/nowhere''\<rparr>)"
  have sp: "spawn ?h (world (start [])) (penv (start [])) bash_argv = (Exited 0 [(Stdout, ''/nowhere'')], [])"
    by (simp add: demo_defs)
  have d1: "isdir_realpath ?h (world (start [])) ''/opt/jdk''"
    and d2: "\<not> isdir_realpath ?h (world (start [])) ''/srv/java''"
    and d3: "\<not> isdir_realpath ?h [] ''/nowhere''"
    by (simp_all add: demo_defs)
  from only_the_override_is_checked [of "''/opt/jdk''" ?h "start []" "[(Stdout, ''/nowhere'')]" "[]"]
       only_the_override_is_checked [of "''/srv/java''" ?h "start []" "[(Stdout, ''/nowhere'')]" "[]"]
       sp d1 d2 d3
  show ?thesis by (simp add: start_def captured_def)
qed

subsection \<open>C6: the alias is there already\<close>

text \<open>
  C6: when discovery succeeds and the list-by-alias invocation exits with status 0,
  \<^verbatim>\<open>trust_cert\<close> returns the neutral status \<^verbatim>\<open>True\<close>, the message
  \<^verbatim>\<open>CA alias exists in trust store.\<close> and no changes, in both modes. The final
  state is the state after discovery plus that one probe: the list-all, the
  \<^verbatim>\<open>-printcert\<close> and the \<^verbatim>\<open>-importcert\<close> invocations have not run.
\<close>

theorem present_alias_is_neutral:
  assumes "discover h java_home s = (Found home trust_store keytool, s3)"
    and "spawn h (world s3) (penv s3) (list_alias_argv keytool trust_store alias storepass)
           = (Exited 0 cs, w4)"
  shows "trust_cert h test nm cert_file alias storepass java_home s =
    (Inr \<lparr>name = nm, changes = Map.empty, result = Some True,
           comment = ''CA alias exists in trust store.''\<rparr>,
     s3\<lparr>world := w4,
        trace := trace s3 @ [Spawn (list_alias_argv keytool trust_store alias storepass) True]\<rparr>)"
  by (simp add: trust_cert_Found [OF assms(1)] check_output_exit [OF assms(2)])

theorem present_alias_is_neutral_witness:
  "trust_cert (demo_host packaged) False ''ca'' ''/etc/ssl/myca.pem'' ''myca'' ''changeit'' None
      (start [''myca'']) =
    (Inr \<lparr>name = ''ca'', changes = Map.empty, result = Some True,
           comment = ''CA alias exists in trust store.''\<rparr>,
     (found [''myca''])\<lparr>trace := trace (found [''myca'']) @
        [Spawn (list_alias_argv ''/usr/bin/keytool'' ''/opt/jdk/lib/security/cacerts'' ''myca'' ''changeit'') True]\<rparr>)"
proof -
  have sp: "spawn (demo_host packaged) (world (found [''myca''])) (penv (found [''myca'']))
      (list_alias_argv ''/usr/bin/keytool'' ''/opt/jdk/lib/security/cacerts'' ''myca'' ''changeit'')
      = (Exited 0 [(Stdout, ''trustedCertEntry'')], [''myca''])"
    by (simp add: demo_defs found_def list_alias_argv_def bash_argv_def)
  from present_alias_is_neutral [OF demo_discover' sp, of False "''ca''" "''/etc/ssl/myca.pem''"]
  show ?thesis by (simp add: found_def)
qed

subsection \<open>C7: the store cannot be listed\<close>

text \<open>
  C7 says that when discovery succeeds, the alias is absent and the listing of the
  store fails, \<^verbatim>\<open>trust_cert\<close> returns the failure status with a message that
  includes what the tool wrote. Line 78 builds that message by adding \<^verbatim>\<open>e.output\<close>
  to a \<^verbatim>\<open>str\<close>. Line 74 does not pass \<^verbatim>\<open>universal_newlines=True\<close>, as line 141
  does for the one output the module reads, so under Python 3 \<^verbatim>\<open>e.output\<close> is a
  \<^verbatim>\<open>bytes\<close> object and the addition raises \<^verbatim>\<open>TypeError\<close>: with a wrong password
  the listing exits with status 1 and the call returns no record. Under Python 2 the
  same call returns the record of the claim.
\<close>

theorem unreadable_store_raises:
  "fst (spawn (demo_host (packaged\<lparr>runs_python3 := True\<rparr>)) [] [(''JAVA_HOME'', ''/opt/jdk'')]
         (list_argv ''/usr/bin/keytool'' ''/opt/jdk/lib/security/cacerts'' ''wrong''))
     = Exited 1 [(Stdout, ''keytool error: ''), (Stderr, ''password was incorrect'')]
   \<and> fst (trust_cert (demo_host (packaged\<lparr>runs_python3 := True\<rparr>)) False
          ''ca'' ''/etc/ssl/myca.pem'' ''myca'' ''wrong'' None (start [])) = Inl TypeError
   \<and> fst (trust_cert (demo_host packaged) False
          ''ca'' ''/etc/ssl/myca.pem'' ''myca'' ''wrong'' None (start []))
     = Inr \<lparr>name = ''ca'', changes = Map.empty, result = Some False,
             comment = ''Keystore /opt/jdk/lib/security/cacerts problem:'' @ [CHR 0x0A]
                        @ ''keytool error: password was incorrect''\<rparr>"
  by (simp add: model_defs demo_defs Let_def)

text \<open>
  On every host, in both modes: after discovery, a list-by-alias invocation and a
  listing that both exit with a non-zero status end the call in \<^verbatim>\<open>TypeError\<close> under
  Python 3; under Python 2 the record has the failure status (\<^verbatim>\<open>False\<close> live,
  \<^verbatim>\<open>None\<close> in a dry run), no changes, and a message that ends with everything the
  tool wrote, standard output and standard error together. Either way the trace ends
  with the two probes: nothing was imported.
\<close>

lemma unreadable_store:
  assumes "discover h java_home s = (Found home trust_store keytool, s3)"
    and "spawn h (world s3) (penv s3) (list_alias_argv keytool trust_store alias storepass)
           = (Exited rc cs, w4)" and "rc \<noteq> 0"
    and "spawn h w4 (penv s3) (list_argv keytool trust_store storepass) = (Exited rc' cs', w5)"
    and "rc' \<noteq> 0"
  shows "trust_cert h test nm cert_file alias storepass java_home s =
    ((if python3 h then Inl TypeError
      else Inr \<lparr>name = nm, changes = Map.empty, result = (if test then None else Some False),
           comment = ''Keystore '' @ trust_store @ '' problem:'' @ [CHR 0x0A] @ captured True cs'\<rparr>),
     s3\<lparr>world := w5,
        trace := trace s3 @ [Spawn (list_alias_argv keytool trust_store alias storepass) True,
                             Spawn (list_argv keytool trust_store storepass) True]\<rparr>)"
proof -
  let ?s4 = "s3\<lparr>world := w4,
        trace := trace s3 @ [Spawn (list_alias_argv keytool trust_store alias storepass) True]\<rparr>"
  have l: "spawn h (world ?s4) (penv ?s4) (list_argv keytool trust_store storepass) = (Exited rc' cs', w5)"
    using assms(4) by simp
  show ?thesis
    using assms(3,5)
    by (simp add: trust_cert_Found [OF assms(1)] check_output_exit [OF assms(2)]
        check_output_exit [OF l])
qed

subsection \<open>C5: the import succeeds\<close>

text \<open>
  C5: live, when discovery succeeds, the list-by-alias invocation exits non-zero
  (the alias is absent), and the listing, the certificate probe and the import exit
  with status 0, \<^verbatim>\<open>trust_cert\<close> returns the success status \<^verbatim>\<open>True\<close>, the message
  \<^verbatim>\<open>Certificate "<alias>" was added as a trusted root.\<close> and the changes
  \<^verbatim>\<open>{'old': '', 'new': alias}\<close>.
\<close>

theorem live_import_succeeds:
  assumes "discover h java_home s = (Found home trust_store keytool, s3)"
    and "spawn h (world s3) (penv s3) (list_alias_argv keytool trust_store alias storepass)
           = (Exited rc cs, w4)" and "rc \<noteq> 0"
    and "spawn h w4 (penv s3) (list_argv keytool trust_store storepass) = (Exited 0 cs5, w5)"
    and "spawn h w5 (penv s3) (printcert_argv keytool cert_file) = (Exited 0 cs6, w6)"
    and "spawn h w6 (penv s3) (importcert_argv keytool cert_file trust_store alias storepass)
           = (Exited 0 cs7, w7)"
  shows "trust_cert h False nm cert_file alias storepass java_home s =
    (Inr \<lparr>name = nm, changes = [''old'' \<mapsto> [], ''new'' \<mapsto> alias], result = Some True,
           comment = ''Certificate '' @ [CHR 0x22] @ alias @ [CHR 0x22]
                      @ '' was added as a trusted root.''\<rparr>,
     s3\<lparr>world := w7,
        trace := trace s3 @ [Spawn (list_alias_argv keytool trust_store alias storepass) True,
                             Spawn (list_argv keytool trust_store storepass) True,
                             Spawn (printcert_argv keytool cert_file) False,
                             Spawn (importcert_argv keytool cert_file trust_store alias storepass) True]\<rparr>)"
proof -
  let ?a = "Spawn (list_alias_argv keytool trust_store alias storepass) True"
  let ?b = "Spawn (list_argv keytool trust_store storepass) True"
  let ?c = "Spawn (printcert_argv keytool cert_file) False"
  let ?s4 = "s3\<lparr>world := w4, trace := trace s3 @ [?a]\<rparr>"
  let ?s5 = "s3\<lparr>world := w5, trace := trace s3 @ [?a, ?b]\<rparr>"
  let ?s6 = "s3\<lparr>world := w6, trace := trace s3 @ [?a, ?b, ?c]\<rparr>"
  have l: "spawn h (world ?s4) (penv ?s4) (list_argv keytool trust_store storepass) = (Exited 0 cs5, w5)"
    using assms(4) by simp
  have p: "spawn h (world ?s5) (penv ?s5) (printcert_argv keytool cert_file) = (Exited 0 cs6, w6)"
    using assms(5) by simp
  have i: "spawn h (world ?s6) (penv ?s6) (importcert_argv keytool cert_file trust_store alias storepass)
           = (Exited 0 cs7, w7)"
    using assms(6) by simp
  show ?thesis
    using assms(3)
    by (simp add: trust_cert_Found [OF assms(1)] check_output_exit [OF assms(2)]
        check_output_exit [OF l] check_output_exit [OF p] check_output_exit [OF i]
        added_comment_def)
qed

theorem live_import_succeeds_witness:
  "trust_cert (demo_host packaged) False ''ca'' ''/etc/ssl/myca.pem'' ''myca'' ''changeit'' None (start []) =
    (Inr \<lparr>name = ''ca'', changes = [''old'' \<mapsto> [], ''new'' \<mapsto> ''myca''], result = Some True,
           comment = ''Certificate '' @ [CHR 0x22] @ ''myca'' @ [CHR 0x22]
                      @ '' was added as a trusted root.''\<rparr>,
     (found [])\<lparr>world := [''myca''], trace := trace (found []) @
        [Spawn (list_alias_argv ''/usr/bin/keytool'' ''/opt/jdk/lib/security/cacerts'' ''myca'' ''changeit'') True,
         Spawn (list_argv ''/usr/bin/keytool'' ''/opt/jdk/lib/security/cacerts'' ''changeit'') True,
         Spawn (printcert_argv ''/usr/bin/keytool'' ''/etc/ssl/myca.pem'') False,
         Spawn (importcert_argv ''/usr/bin/keytool'' ''/etc/ssl/myca.pem''
                  ''/opt/jdk/lib/security/cacerts'' ''myca'' ''changeit'') True]\<rparr>)"
proof -
  have a: "spawn (demo_host packaged) (world (found [])) (penv (found []))
      (list_alias_argv ''/usr/bin/keytool'' ''/opt/jdk/lib/security/cacerts'' ''myca'' ''changeit'')
      = (Exited 1 [(Stdout, ''keytool error: no such alias'')], [])"
    by (simp add: demo_defs found_def list_alias_argv_def bash_argv_def)
  have l: "spawn (demo_host packaged) [] (penv (found []))
      (list_argv ''/usr/bin/keytool'' ''/opt/jdk/lib/security/cacerts'' ''changeit'')
      = (Exited 0 [(Stdout, ''Keystore type: jks'')], [])"
    by (simp add: demo_defs found_def list_argv_def bash_argv_def)
  have p: "spawn (demo_host packaged) [] (penv (found []))
      (printcert_argv ''/usr/bin/keytool'' ''/etc/ssl/myca.pem'')
      = (Exited 0 [(Stdout, ''Owner: CN=myca'')], [])"
    by (simp add: demo_defs found_def printcert_argv_def bash_argv_def)
  have i: "spawn (demo_host packaged) [] (penv (found []))
      (importcert_argv ''/usr/bin/keytool'' ''/etc/ssl/myca.pem'' ''/opt/jdk/lib/security/cacerts''
         ''myca'' ''changeit'')
      = (Exited 0 [(Stderr, ''Certificate was added to keystore'')], [''myca''])"
    by (simp add: demo_defs found_def importcert_argv_def bash_argv_def)
  have n: "(1::int) \<noteq> 0" by simp
  from live_import_succeeds [OF demo_discover' a n l p i, of "''ca''"]
  show ?thesis by (simp add: found_def)
qed

subsection \<open>C8: the certificate cannot be decoded\<close>

text \<open>
  C8 says that, when the \<^verbatim>\<open>-printcert\<close> probe fails, the message names the
  certificate file and carries what the tool wrote on standard output and standard
  error. Line 84 is the one call on the tool without \<^verbatim>\<open>stderr=subprocess.STDOUT\<close>,
  so \<^verbatim>\<open>e.output\<close> holds the standard output only. Here the tool writes
  \<^verbatim>\<open>keytool error: empty input\<close> to its standard error and exits with status 1; the
  message of the record ends after the line feed, with none of the tool's text.
\<close>

theorem printcert_stderr_is_lost:
  "fst (spawn (demo_host packaged) [] [(''JAVA_HOME'', ''/opt/jdk'')]
         (printcert_argv ''/usr/bin/keytool'' ''/etc/ssl/bad.pem''))
     = Exited 1 [(Stderr, ''keytool error: empty input'')]
   \<and> fst (trust_cert (demo_host packaged) False ''ca'' ''/etc/ssl/bad.pem'' ''myca'' ''changeit'' None
            (start []))
     = Inr \<lparr>name = ''ca'', changes = Map.empty, result = Some False,
             comment = ''File /etc/ssl/bad.pem is not a valid certificate:'' @ [CHR 0x0A]\<rparr>"
  by (simp add: model_defs demo_defs Let_def)

subsection \<open>C3: a dry run changes nothing\<close>



subsection \<open>C2: the second run finds the alias\<close>



end
